theory Spec2Isabelle
  imports Complex_Main "HOL-Library.Char_ord" "HOL-Library.List_Lexorder"
begin

section \<open>JavaScript numbers\<close>

text \<open>
  The services compute with JavaScript numbers. The stored data (answer values, item
  bounds, weights, stored scores) are finite numbers and are modelled as \<^typ>\<open>real\<close>:
  arithmetic on them is exact, so the rounding of IEEE doubles and overflow to
  \<open>Infinity\<close> are not part of the model (\<open>normalCDF_rounded\<close> below is the one
  function that writes the rounding out). Where the source divides by a quantity that
  can be zero, or takes \<open>Math.max\<close> of no arguments, the result can be \<open>Infinity\<close>,
  \<open>-Infinity\<close> or \<open>NaN\<close>; those computations use \<open>jsnum\<close>, which adds the three
  special values to the finite numbers. Signed zeros are not distinguished: every
  divisor in the source is a length, a count or a difference of stored numbers.
\<close>

datatype jsnum = Fin real | PosInf | NegInf | NaN

fun js_div :: "jsnum \<Rightarrow> jsnum \<Rightarrow> jsnum" where
  "js_div NaN _ = NaN"
| "js_div _ NaN = NaN"
| "js_div (Fin a) (Fin b) =
     (if b \<noteq> 0 then Fin (a / b)
      else if a = 0 then NaN
      else if a > 0 then PosInf else NegInf)"
| "js_div (Fin a) PosInf = Fin 0"
| "js_div (Fin a) NegInf = Fin 0"
| "js_div PosInf (Fin b) = (if b < 0 then NegInf else PosInf)"
| "js_div NegInf (Fin b) = (if b < 0 then PosInf else NegInf)"
| "js_div PosInf PosInf = NaN"
| "js_div PosInf NegInf = NaN"
| "js_div NegInf PosInf = NaN"
| "js_div NegInf NegInf = NaN"

fun js_mul :: "jsnum \<Rightarrow> jsnum \<Rightarrow> jsnum" where
  "js_mul NaN _ = NaN"
| "js_mul _ NaN = NaN"
| "js_mul (Fin a) (Fin b) = Fin (a * b)"
| "js_mul (Fin a) PosInf = (if a = 0 then NaN else if a > 0 then PosInf else NegInf)"
| "js_mul (Fin a) NegInf = (if a = 0 then NaN else if a > 0 then NegInf else PosInf)"
| "js_mul PosInf (Fin b) = (if b = 0 then NaN else if b > 0 then PosInf else NegInf)"
| "js_mul NegInf (Fin b) = (if b = 0 then NaN else if b > 0 then NegInf else PosInf)"
| "js_mul PosInf PosInf = PosInf"
| "js_mul PosInf NegInf = NegInf"
| "js_mul NegInf PosInf = NegInf"
| "js_mul NegInf NegInf = PosInf"

fun js_sub :: "jsnum \<Rightarrow> jsnum \<Rightarrow> jsnum" where
  "js_sub NaN _ = NaN"
| "js_sub _ NaN = NaN"
| "js_sub (Fin a) (Fin b) = Fin (a - b)"
| "js_sub (Fin a) PosInf = NegInf"
| "js_sub (Fin a) NegInf = PosInf"
| "js_sub PosInf (Fin b) = PosInf"
| "js_sub NegInf (Fin b) = NegInf"
| "js_sub PosInf PosInf = NaN"
| "js_sub PosInf NegInf = PosInf"
| "js_sub NegInf PosInf = NegInf"
| "js_sub NegInf NegInf = NaN"

text \<open>The comparison \<open>a <= b\<close>; any comparison with \<open>NaN\<close> is false.\<close>

fun js_le :: "jsnum \<Rightarrow> jsnum \<Rightarrow> bool" where
  "js_le NaN _ = False"
| "js_le _ NaN = False"
| "js_le (Fin a) (Fin b) = (a \<le> b)"
| "js_le NegInf _ = True"
| "js_le _ PosInf = True"
| "js_le PosInf _ = False"
| "js_le _ NegInf = False"

definition js_ge :: "jsnum \<Rightarrow> jsnum \<Rightarrow> bool" where
  "js_ge a b = js_le b a"

text \<open>\<open>Math.max(a, b)\<close> and \<open>Math.min(a, b)\<close>: \<open>NaN\<close> if either argument is.\<close>

fun js_max :: "jsnum \<Rightarrow> jsnum \<Rightarrow> jsnum" where
  "js_max NaN _ = NaN"
| "js_max _ NaN = NaN"
| "js_max a b = (if js_le a b then b else a)"

fun js_min :: "jsnum \<Rightarrow> jsnum \<Rightarrow> jsnum" where
  "js_min NaN _ = NaN"
| "js_min _ NaN = NaN"
| "js_min a b = (if js_le a b then a else b)"

text \<open>\<open>Math.max(...xs)\<close>: the maximum of the arguments, \<open>-Infinity\<close> when there are none.\<close>

definition js_max_list :: "jsnum list \<Rightarrow> jsnum" where
  "js_max_list xs = fold (\<lambda>x m. js_max m x) xs NegInf"

text \<open>\<open>Math.round\<close> rounds to the nearest integer, halves towards \<open>+Infinity\<close>.\<close>

definition round_real :: "real \<Rightarrow> real" where
  "round_real x = of_int \<lfloor>x + 1 / 2\<rfloor>"

fun js_round :: "jsnum \<Rightarrow> jsnum" where
  "js_round (Fin a) = Fin (round_real a)"
| "js_round x = x"

text \<open>
  Decimal rendering of an integer, and of \<open>Math.round(x)\<close> inside a template literal
  (magnitudes below \<open>10^21\<close>, where JavaScript prints every digit).
\<close>

definition digit_char :: "nat \<Rightarrow> char" where
  "digit_char n = ''0123456789'' ! (n mod 10)"

fun digits_of :: "nat \<Rightarrow> string" where
  "digits_of n =
     (if n < 10 then [digit_char n]
      else digits_of (n div 10) @ [digit_char (n mod 10)])"

definition string_of_int :: "int \<Rightarrow> string" where
  "string_of_int i = (if i < 0 then ''-'' @ digits_of (nat (- i)) else digits_of (nat i))"

fun rounded_string :: "jsnum \<Rightarrow> string" where
  "rounded_string (Fin a) = string_of_int \<lfloor>a + 1 / 2\<rfloor>"
| "rounded_string PosInf = ''Infinity''"
| "rounded_string NegInf = ''-Infinity''"
| "rounded_string NaN = ''NaN''"

section \<open>Data model\<close>

text \<open>
  The Mongoose schemas of \<open>Assessment\<close> and \<open>AssessmentResponse\<close>. A \<open>Date\<close> is a
  number of milliseconds; \<open>null\<close> and \<open>undefined\<close> are \<open>None\<close>.
\<close>

record dimension =
  dimensionId :: string
  dim_name :: string
  dim_description :: string
  itemIds :: "string list"

record item =
  itemId :: string
  item_text :: string
  item_dimensionId :: string
  isReversed :: bool
  weight :: real
  minValue :: real
  maxValue :: real

record assessment =
  assessmentId :: string
  title :: string
  dimensions :: "dimension list"
  items :: "item list"

record answer =
  ans_itemId :: string
  ans_value :: "real option"
  answeredAt :: nat

record dimension_score =
  ds_dimensionId :: string
  ds_name :: string
  rawScore :: real
  normalizedScore :: real
  percentile :: real

record score_set =
  ss_dimensions :: "dimension_score list"
  overallScore :: real
  computedAt :: nat

section \<open>Scoring service\<close>

definition reverseScore :: "real \<Rightarrow> real \<Rightarrow> real \<Rightarrow> real" where
  "reverseScore v mn mx = (mx + mn) - v"

definition normalizeScore :: "real \<Rightarrow> real \<Rightarrow> real \<Rightarrow> real" where
  "normalizeScore raw minPossible maxPossible =
     (if maxPossible = minPossible then 50
      else ((raw - minPossible) / (maxPossible - minPossible)) * 100)"

text \<open>The polynomial tail of the approximation, before the branch on the sign of \<open>z\<close>.\<close>

definition normalCDF_prob :: "real \<Rightarrow> real" where
  "normalCDF_prob z =
     (let t = 1 / (1 + 0.2316419 * \<bar>z\<bar>);
          d = 0.3989423 * exp (- z * z / 2)
      in d * t * (0.3193815 + t * (- 0.3565638 + t * (1.781478 + t * (- 1.821256 + t * 1.330274)))))"

definition normalCDF :: "real \<Rightarrow> real" where
  "normalCDF z = (if z > 0 then 1 - normalCDF_prob z else normalCDF_prob z)"

definition calculatePercentile :: "real \<Rightarrow> real" where
  "calculatePercentile score = normalCDF ((score - 50) / 15) * 100"

text \<open>
  \<open>normalCDF\<close> once more, with the rounding of the machine arithmetic written out:
  \<open>rnd\<close> maps the exact result of each operation, and the decimal value of each
  literal, to the number that is stored, and \<open>ex\<close> is what \<open>Math.exp\<close> returns.
  Negation, \<open>Math.abs\<close> and the integers 1 and 2 are exact. Nothing is assumed of
  \<open>rnd\<close> and \<open>ex\<close>; with no rounding and the exact exponential the function is
  \<open>normalCDF\<close> above.
\<close>

definition normalCDF_prob_rounded :: "(real \<Rightarrow> real) \<Rightarrow> (real \<Rightarrow> real) \<Rightarrow> real \<Rightarrow> real" where
  "normalCDF_prob_rounded rnd ex z =
     (let t = rnd (1 / rnd (1 + rnd (rnd 0.2316419 * \<bar>z\<bar>)));
          d = rnd (rnd 0.3989423 * ex (rnd (rnd (- z * z) / 2)));
          p4 = rnd (- rnd 1.821256 + rnd (t * rnd 1.330274));
          p3 = rnd (rnd 1.781478 + rnd (t * p4));
          p2 = rnd (- rnd 0.3565638 + rnd (t * p3));
          p1 = rnd (rnd 0.3193815 + rnd (t * p2))
      in rnd (rnd (d * t) * p1))"

definition normalCDF_rounded :: "(real \<Rightarrow> real) \<Rightarrow> (real \<Rightarrow> real) \<Rightarrow> real \<Rightarrow> real" where
  "normalCDF_rounded rnd ex z =
     (let prob = normalCDF_prob_rounded rnd ex z
      in if z > 0 then rnd (1 - prob) else prob)"

text \<open>
  The loop of \<open>calculateDimensionScore\<close> over the items of the dimension: the state is
  \<open>(rawScore, answeredCount)\<close>; an item with no answer, or with a null value, leaves it
  unchanged.
\<close>

fun score_items :: "item list \<Rightarrow> answer list \<Rightarrow> real \<times> nat \<Rightarrow> real \<times> nat" where
  "score_items [] answers acc = acc"
| "score_items (it # its) answers (raw, answeredCount) =
     (case find (\<lambda>a. ans_itemId a = itemId it) answers of
        None \<Rightarrow> score_items its answers (raw, answeredCount)
      | Some a \<Rightarrow>
          (case ans_value a of
             None \<Rightarrow> score_items its answers (raw, answeredCount)
           | Some v \<Rightarrow>
               (let v' = (if isReversed it then reverseScore v (minValue it) (maxValue it) else v)
                in score_items its answers (raw + v' * weight it, answeredCount + 1))))"

definition zero_score :: "dimension \<Rightarrow> dimension_score" where
  "zero_score d = \<lparr>ds_dimensionId = dimensionId d, ds_name = dim_name d,
     rawScore = 0, normalizedScore = 0, percentile = 0\<rparr>"

definition calculateDimensionScore :: "dimension \<Rightarrow> answer list \<Rightarrow> item list \<Rightarrow> dimension_score" where
  "calculateDimensionScore d answers allItems =
     (let its = filter (\<lambda>it. item_dimensionId it = dimensionId d) allItems
      in if length its = 0 then zero_score d
         else
           (let (raw, answeredCount) = score_items its answers (0, 0)
            in if answeredCount = 0 then zero_score d
               else
                 (let minPossible = fold (\<lambda>it s. s + minValue it * weight it) its 0;
                      maxPossible = fold (\<lambda>it s. s + maxValue it * weight it) its 0;
                      normalized = normalizeScore raw minPossible maxPossible;
                      pct = calculatePercentile normalized
                  in \<lparr>ds_dimensionId = dimensionId d, ds_name = dim_name d,
                       rawScore = round_real (raw * 100) / 100,
                       normalizedScore = round_real (normalized * 100) / 100,
                       percentile = round_real pct\<rparr>)))"

definition calculateOverallScore :: "dimension_score list \<Rightarrow> real" where
  "calculateOverallScore dimensionScores =
     (if length dimensionScores = 0 then 0
      else
        (let total = fold (\<lambda>d s. s + normalizedScore d) dimensionScores 0;
             average = total / real (length dimensionScores)
         in round_real (average * 100) / 100))"

text \<open>
  \<open>groupByDimension\<close> builds an object keyed by dimension identifier; an answer whose
  item is unknown, or whose item has an empty dimension identifier, is dropped.
\<close>

definition group_step :: "assessment \<Rightarrow> answer \<Rightarrow> (string \<rightharpoonup> answer list) \<Rightarrow> (string \<rightharpoonup> answer list)" where
  "group_step a ans grouped =
     (case find (\<lambda>i. itemId i = ans_itemId ans) (items a) of
        None \<Rightarrow> grouped
      | Some it \<Rightarrow>
          (if item_dimensionId it \<noteq> []
           then grouped(item_dimensionId it \<mapsto>
                  (case grouped (item_dimensionId it) of None \<Rightarrow> [] | Some l \<Rightarrow> l) @ [ans])
           else grouped))"

definition groupByDimension :: "assessment \<Rightarrow> answer list \<Rightarrow> (string \<rightharpoonup> answer list)" where
  "groupByDimension a answers = fold (group_step a) answers Map.empty"

text \<open>\<open>scoreAssessment\<close>; the clock reading \<open>new Date()\<close> is the argument \<open>now\<close>.\<close>

definition scoreAssessment :: "assessment \<Rightarrow> answer list \<Rightarrow> nat \<Rightarrow> score_set" where
  "scoreAssessment a answers now =
     (let groupedAnswers = groupByDimension a answers;
          dimensionScores =
            map (\<lambda>d. calculateDimensionScore d
                        (case groupedAnswers (dimensionId d) of None \<Rightarrow> [] | Some l \<Rightarrow> l)
                        (items a))
                (dimensions a)
      in \<lparr>ss_dimensions = dimensionScores,
          overallScore = calculateOverallScore dimensionScores,
          computedAt = now\<rparr>)"

text \<open>The sample assessment created by \<open>createSampleAssessment\<close>.\<close>

definition sample_item :: "string \<Rightarrow> string \<Rightarrow> string \<Rightarrow> bool \<Rightarrow> item" where
  "sample_item i t d r = \<lparr>itemId = i, item_text = t, item_dimensionId = d, isReversed = r,
     weight = 1.0, minValue = 1, maxValue = 5\<rparr>"

definition personality_v1 :: assessment where
  "personality_v1 = \<lparr>assessmentId = ''personality-v1'',
     title = ''Big Five Personality Test'',
     dimensions =
       [\<lparr>dimensionId = ''extraversion'', dim_name = ''Extraversion'',
          dim_description = ''Tendency to seek stimulation and enjoy company of others'',
          itemIds = [''q1'', ''q2'', ''q3'']\<rparr>,
        \<lparr>dimensionId = ''agreeableness'', dim_name = ''Agreeableness'',
          dim_description = ''Tendency to be compassionate and cooperative'',
          itemIds = [''q4'', ''q5'', ''q6'']\<rparr>,
        \<lparr>dimensionId = ''conscientiousness'', dim_name = ''Conscientiousness'',
          dim_description = ''Tendency to be organized and dependable'',
          itemIds = [''q7'', ''q8'', ''q9'']\<rparr>],
     items =
       [sample_item ''q1'' ''I am the life of the party'' ''extraversion'' False,
        sample_item ''q2'' ''I prefer to be alone'' ''extraversion'' True,
        sample_item ''q3'' ''I talk to many people at parties'' ''extraversion'' False,
        sample_item ''q4'' ''I am interested in people'' ''agreeableness'' False,
        sample_item ''q5'' ''I insult people'' ''agreeableness'' True,
        sample_item ''q6'' ''I sympathize with others'' ''agreeableness'' False,
        sample_item ''q7'' ''I am always prepared'' ''conscientiousness'' False,
        sample_item ''q8'' ''I leave my belongings around'' ''conscientiousness'' True,
        sample_item ''q9'' ''I pay attention to details'' ''conscientiousness'' False]\<rparr>"

text \<open>The answers \<open>[5,2,4,5,1,4,5,2,4]\<close> for \<open>q1..q9\<close>.\<close>

definition mk_answer :: "string \<Rightarrow> real \<Rightarrow> answer" where
  "mk_answer i v = \<lparr>ans_itemId = i, ans_value = Some v, answeredAt = 0\<rparr>"

definition sample_answers :: "answer list" where
  "sample_answers =
     [mk_answer ''q1'' 5, mk_answer ''q2'' 2, mk_answer ''q3'' 4,
      mk_answer ''q4'' 5, mk_answer ''q5'' 1, mk_answer ''q6'' 4,
      mk_answer ''q7'' 5, mk_answer ''q8'' 2, mk_answer ''q9'' 4]"

section \<open>Reliability service\<close>

record reliability_check =
  checkName :: string
  passed :: bool
  score :: jsnum
  message :: string

record reliability_result =
  isUsable :: bool
  overallRating :: string
  checks :: "reliability_check list"
  flags :: "string list"
  checkedAt :: nat

record metadata =
  startedAt :: "nat option"
  timeSpent :: "real option"

text \<open>\<open>createCheck\<close> rounds the score to two decimals: \<open>Math.round(score * 100) / 100\<close>.\<close>

definition createCheck :: "string \<Rightarrow> bool \<Rightarrow> jsnum \<Rightarrow> string \<Rightarrow> reliability_check" where
  "createCheck n p s m =
     \<lparr>checkName = n, passed = p,
      score = js_div (js_round (js_mul s (Fin 100))) (Fin 100), message = m\<rparr>"

text \<open>
  \<open>valueCounts[val] = (valueCounts[val] || 0) + 1\<close> on an object keyed by the answer
  value, kept as an association list.
\<close>

fun bump :: "real \<Rightarrow> (real \<times> nat) list \<Rightarrow> (real \<times> nat) list" where
  "bump v [] = [(v, 1)]"
| "bump v ((k, c) # kcs) = (if k = v then (k, c + 1) # kcs else (k, c) # bump v kcs)"

definition count_values :: "answer list \<Rightarrow> (real \<times> nat) list" where
  "count_values answers =
     fold (\<lambda>a valueCounts. case ans_value a of None \<Rightarrow> valueCounts | Some v \<Rightarrow> bump v valueCounts)
       answers []"

definition checkStraightlining :: "answer list \<Rightarrow> reliability_check" where
  "checkStraightlining answers =
     (if length answers = 0 then createCheck ''straightlining'' False (Fin 0) ''No answers provided''
      else
        (let counts = map snd (count_values answers);
             maxCount = js_max_list (map (\<lambda>c. Fin (real c)) counts);
             totalAnswers = length answers;
             straightlinePercent = js_mul (js_div maxCount (Fin (real totalAnswers))) (Fin 100);
             p = js_le straightlinePercent (Fin 80);
             s = (if p then Fin 100 else js_max (Fin 0) (js_sub (Fin 100) straightlinePercent));
             m = (if p then ''Good response variation''
                  else rounded_string straightlinePercent
                       @ ''% answers are identical - possible straightlining'')
         in createCheck ''straightlining'' p s m))"

text \<open>The answered values: \<open>answers.filter(a => a.value != null).map(a => a.value)\<close>.\<close>

definition answered_values :: "answer list \<Rightarrow> real list" where
  "answered_values answers = List.map_filter ans_value answers"

definition checkVariability :: "answer list \<Rightarrow> item list \<Rightarrow> reliability_check" where
  "checkVariability answers its =
     (let vals = answered_values answers
      in if length vals < 3 then createCheck ''variability'' False (Fin 0) ''Not enough answers''
         else
           (let mean = fold (\<lambda>v s. s + v) vals 0 / real (length vals);
                variance = fold (\<lambda>v s. s + (v - mean) ^ 2) vals 0 / real (length vals);
                stdDev = sqrt variance;
                (mn, mx) = (case its of [] \<Rightarrow> (1, 5) | it # _ \<Rightarrow> (minValue it, maxValue it));
                scaleRange = mx - mn;
                normalizedSD = js_div (Fin stdDev) (Fin scaleRange);
                p = js_ge normalizedSD (Fin 0.15);
                s = js_min (Fin 100) (js_mul normalizedSD (Fin 400));
                m = (if p then ''Adequate response variability''
                     else ''Low response variability - answers too similar'')
            in createCheck ''variability'' p s m))"

text \<open>
  The loop of \<open>checkExtremeResponding\<close> over the answers: the state is
  \<open>(extremeCount, totalCount)\<close>; the item map is keyed by item identifier, a later item
  of the same identifier replacing an earlier one.
\<close>

definition item_map :: "item list \<Rightarrow> (string \<rightharpoonup> real \<times> real)" where
  "item_map its = fold (\<lambda>it m. m(itemId it \<mapsto> (minValue it, maxValue it))) its Map.empty"

definition extreme_step :: "(string \<rightharpoonup> real \<times> real) \<Rightarrow> answer \<Rightarrow> nat \<times> nat \<Rightarrow> nat \<times> nat" where
  "extreme_step itemMap a acc =
     (case acc of (extremeCount, totalCount) \<Rightarrow>
        (case ans_value a of
           None \<Rightarrow> acc
         | Some v \<Rightarrow>
             (case itemMap (ans_itemId a) of
                None \<Rightarrow> acc
              | Some (mn, mx) \<Rightarrow>
                  (if v = mn \<or> v = mx then (extremeCount + 1, totalCount + 1)
                   else (extremeCount, totalCount + 1)))))"

definition checkExtremeResponding :: "answer list \<Rightarrow> item list \<Rightarrow> reliability_check" where
  "checkExtremeResponding answers its =
     (if length answers = 0 then createCheck ''extreme_responding'' False (Fin 0) ''No answers''
      else
        (let (extremeCount, totalCount) = fold (extreme_step (item_map its)) answers (0, 0);
             extremePercent =
               (if totalCount > 0 then (real extremeCount / real totalCount) * 100 else 0);
             p = (extremePercent \<le> 70);
             s = (if p then 100 else max 0 (100 - extremePercent));
             m = (if p then ''Appropriate use of scale''
                  else rounded_string (Fin extremePercent) @ ''% extreme values - possible bias'')
         in createCheck ''extreme_responding'' p (Fin s) m))"

definition checkCompletionRate :: "answer list \<Rightarrow> item list \<Rightarrow> reliability_check" where
  "checkCompletionRate answers its =
     (let totalItems = length its;
          answeredItems = length (filter (\<lambda>a. ans_value a \<noteq> None) answers);
          completionPercent =
            js_mul (js_div (Fin (real answeredItems)) (Fin (real totalItems))) (Fin 100);
          p = js_ge completionPercent (Fin 80);
          s = completionPercent;
          m = (if p then rounded_string completionPercent @ ''% completion rate''
               else ''Only '' @ rounded_string completionPercent @ ''% completed - too many skipped'')
      in createCheck ''completion_rate'' p s m)"

definition checkResponseTime :: "real \<Rightarrow> nat \<Rightarrow> reliability_check" where
  "checkResponseTime t itemCount =
     (let avgTimePerItem = js_div (Fin t) (Fin (real itemCount));
          minTimePerItem = Fin 2;
          p = js_ge avgTimePerItem minTimePerItem;
          s = js_min (Fin 100) (js_mul (js_div avgTimePerItem minTimePerItem) (Fin 100));
          m = (if p then ''Average '' @ rounded_string avgTimePerItem @ ''s per item - adequate time''
               else ''Only '' @ rounded_string avgTimePerItem @ ''s per item - possible rushing'')
      in createCheck ''response_time'' p s m)"

definition calculateOverallRating :: "reliability_check list \<Rightarrow> string" where
  "calculateOverallRating cs =
     (let passedCount = length (filter passed cs);
          totalChecks = length cs;
          passRate = js_div (Fin (real passedCount)) (Fin (real totalChecks))
      in if js_ge passRate (Fin 0.9) then ''excellent''
         else if js_ge passRate (Fin 0.7) then ''good''
         else if js_ge passRate (Fin 0.5) then ''questionable''
         else ''poor'')"

definition generateFlags :: "reliability_check list \<Rightarrow> string list" where
  "generateFlags cs = map checkName (filter (\<lambda>c. \<not> passed c) cs)"

text \<open>
  \<open>checkReliability\<close>: four checks always, the response-time check only when
  \<open>metadata.timeSpent\<close> is present and positive. The clock reading is \<open>now\<close>.
\<close>

definition checkReliability :: "assessment \<Rightarrow> answer list \<Rightarrow> metadata \<Rightarrow> nat \<Rightarrow> reliability_result" where
  "checkReliability a answers md now =
     (let cs = [checkStraightlining answers,
                checkVariability answers (items a),
                checkExtremeResponding answers (items a),
                checkCompletionRate answers (items a)]
               @ (case timeSpent md of
                    None \<Rightarrow> []
                  | Some t \<Rightarrow> if t > 0 then [checkResponseTime t (length (items a))] else []);
          rating = calculateOverallRating cs
      in \<lparr>isUsable = (rating \<noteq> ''poor''), overallRating = rating, checks = cs,
          flags = generateFlags cs, checkedAt = now\<rparr>)"

section \<open>Share service\<close>

text \<open>
  A stored response. Identifiers are strings of bytes (the response identifier is a UUID,
  so \<open>Buffer.from\<close> yields one byte per character and the code-unit order of
  \<open>Array.prototype.sort\<close> is the lexicographic order of the bytes).
\<close>

record response =
  responseId :: string
  userId :: string
  resp_assessmentId :: string
  answers :: "answer list"
  scores :: score_set
  reliability :: reliability_result
  resp_metadata :: metadata

text \<open>\<open>Buffer.from(s).toString('base64')\<close>: three bytes give four characters, with padding.\<close>

definition b64_char :: "nat \<Rightarrow> char" where
  "b64_char n =
     ''ABCDEFGHIJKLMNOPQRSTUVWXYZabcdefghijklmnopqrstuvwxyz0123456789+/'' ! (n mod 64)"

fun b64_bytes :: "nat list \<Rightarrow> string" where
  "b64_bytes [] = []"
| "b64_bytes [a] = [b64_char (a div 4), b64_char ((a mod 4) * 16), CHR ''='', CHR ''='']"
| "b64_bytes [a, b] =
     [b64_char (a div 4), b64_char ((a mod 4) * 16 + b div 16),
      b64_char ((b mod 16) * 4), CHR ''='']"
| "b64_bytes (a # b # c # rest) =
     [b64_char (a div 4), b64_char ((a mod 4) * 16 + b div 16),
      b64_char ((b mod 16) * 4 + c div 64), b64_char (c mod 64)] @ b64_bytes rest"

definition base64 :: "string \<Rightarrow> string" where
  "base64 s = b64_bytes (map of_char s)"

definition generateProfileId :: "string \<Rightarrow> string" where
  "generateProfileId rid = ''profile_'' @ take 12 (base64 rid)"

text \<open>\<open>[responseId1, responseId2].sort().join('_')\<close>, then the first 16 characters of its base64.\<close>

definition join_underscore :: "string list \<Rightarrow> string" where
  "join_underscore xs = (case xs of [] \<Rightarrow> [] | x # rest \<Rightarrow> fold (\<lambda>y acc. acc @ ''_'' @ y) rest x)"

definition generateComparisonId :: "string \<Rightarrow> string \<Rightarrow> string" where
  "generateComparisonId responseId1 responseId2 =
     (let combined = join_underscore (sort [responseId1, responseId2])
      in ''compare_'' @ take 16 (base64 combined))"

definition getScoreLevel :: "real \<Rightarrow> string" where
  "getScoreLevel s =
     (if s \<ge> 80 then ''very_high''
      else if s \<ge> 60 then ''high''
      else if s \<ge> 40 then ''moderate''
      else if s \<ge> 20 then ''low''
      else ''very_low'')"

definition getScoreDescription :: "string \<Rightarrow> real \<Rightarrow> string" where
  "getScoreDescription dimensionName s =
     (let level = getScoreLevel s
      in if level = ''very_high'' then ''Very strong in '' @ dimensionName
         else if level = ''high'' then ''Above average in '' @ dimensionName
         else if level = ''moderate'' then ''Moderate '' @ dimensionName
         else if level = ''low'' then ''Below average in '' @ dimensionName
         else if level = ''very_low'' then ''Low '' @ dimensionName
         else ''Score available'')"

definition getSimilarityCategory :: "real \<Rightarrow> string" where
  "getSimilarityCategory s =
     (if s \<ge> 90 then ''very_similar''
      else if s \<ge> 75 then ''similar''
      else if s \<ge> 50 then ''somewhat_different''
      else ''very_different'')"

definition getCompatibilityLevel :: "real \<Rightarrow> string" where
  "getCompatibilityLevel s =
     (if s \<ge> 85 then ''very_high''
      else if s \<ge> 70 then ''high''
      else if s \<ge> 50 then ''moderate''
      else if s \<ge> 30 then ''low''
      else ''very_low'')"

definition getComparisonInterpretation :: "string \<Rightarrow> real \<Rightarrow> real \<Rightarrow> string" where
  "getComparisonInterpretation dimensionName score1 score2 =
     (let diff = \<bar>score1 - score2\<bar>
      in if diff < 10 then ''Very similar '' @ dimensionName
         else if diff < 25 then ''Slight difference in '' @ dimensionName
         else if diff < 40 then ''Moderate difference in '' @ dimensionName
         else ''Significant difference in '' @ dimensionName)"

text \<open>
  \<open>getProfileStrength\<close> divides by the number of dimensions with no guard: an empty list
  gives \<open>0 / 0 = NaN\<close>, every comparison fails and the label is \<open>balanced\<close>.
\<close>

definition getProfileStrength :: "dimension_score list \<Rightarrow> string" where
  "getProfileStrength ds =
     (let avgDeviation =
            js_div (Fin (fold (\<lambda>d s. s + \<bar>normalizedScore d - 50\<bar>) ds 0)) (Fin (real (length ds)))
      in if js_ge avgDeviation (Fin 25) then ''very_defined''
         else if js_ge avgDeviation (Fin 15) then ''defined''
         else if js_ge avgDeviation (Fin 10) then ''moderate''
         else ''balanced'')"

record dimension_comparison =
  dc_dimensionId :: string
  dimensionName :: string
  profile1Score :: real
  profile2Score :: real
  difference :: real
  similarity :: real
  category :: string
  dc_interpretation :: string

fun compareDimensions :: "dimension_score list \<Rightarrow> dimension_score list \<Rightarrow> dimension_comparison list" where
  "compareDimensions [] dimensions2 = []"
| "compareDimensions (dim1 # rest) dimensions2 =
     (case find (\<lambda>d. ds_dimensionId d = ds_dimensionId dim1) dimensions2 of
        None \<Rightarrow> compareDimensions rest dimensions2
      | Some dim2 \<Rightarrow>
          (let diff = \<bar>normalizedScore dim1 - normalizedScore dim2\<bar>;
               sim = 100 - diff
           in \<lparr>dc_dimensionId = ds_dimensionId dim1,
                dimensionName = ds_name dim1,
                profile1Score = normalizedScore dim1,
                profile2Score = normalizedScore dim2,
                difference = round_real diff,
                similarity = round_real sim,
                category = getSimilarityCategory sim,
                dc_interpretation =
                  getComparisonInterpretation (ds_name dim1) (normalizedScore dim1)
                    (normalizedScore dim2)\<rparr>
              # compareDimensions rest dimensions2))"

definition calculateOverallSimilarity :: "dimension_comparison list \<Rightarrow> real" where
  "calculateOverallSimilarity comparisons =
     (if length comparisons = 0 then 0
      else fold (\<lambda>c total. total + similarity c) comparisons 0 / real (length comparisons))"

record strongest =
  st_dimension :: string
  st_score :: real

text \<open>\<open>findStrongest\<close>: a \<open>reduce\<close> with no initial value starts from the first element.\<close>

definition findStrongest :: "dimension_comparison list \<Rightarrow> string \<Rightarrow> strongest option" where
  "findStrongest comparisons ty =
     (case comparisons of
        [] \<Rightarrow> None
      | c0 # rest \<Rightarrow>
          (if ty = ''similarity'' then
             (let s = fold (\<lambda>c mx. if similarity c > similarity mx then c else mx) rest c0
              in Some \<lparr>st_dimension = dimensionName s, st_score = similarity s\<rparr>)
           else
             (let l = fold (\<lambda>c mx. if difference c > difference mx then c else mx) rest c0
              in Some \<lparr>st_dimension = dimensionName l, st_score = difference l\<rparr>)))"

record share_dimension =
  sd_name :: string
  sd_score :: real
  sd_percentile :: "real option"
  sd_level :: string
  sd_description :: string

record share_payload =
  sp_profileId :: string
  sp_userId :: string
  assessmentVersion :: string
  sp_overallScore :: real
  sp_dimensions :: "share_dimension list"
  profileStrength :: string
  sp_generatedAt :: nat
  sp_disclaimer :: string

text \<open>The result of \<open>generateSharePayload\<close>: the error object \<open>{error, rating}\<close> or a profile.\<close>

datatype share_result = ShareError string string | ShareProfile share_payload

definition generateSharePayload :: "response \<Rightarrow> bool \<Rightarrow> nat \<Rightarrow> share_result" where
  "generateSharePayload r includePercentiles now =
     (if \<not> isUsable (reliability r)
      then ShareError ''Response quality too low to share'' (overallRating (reliability r))
      else
        (let dims =
               map (\<lambda>d. \<lparr>sd_name = ds_name d,
                           sd_score = normalizedScore d,
                           sd_percentile = (if includePercentiles then Some (percentile d) else None),
                           sd_level = getScoreLevel (normalizedScore d),
                           sd_description = getScoreDescription (ds_name d) (normalizedScore d)\<rparr>)
                   (ss_dimensions (scores r))
         in ShareProfile
              \<lparr>sp_profileId = generateProfileId (responseId r),
               sp_userId = userId r,
               assessmentVersion = resp_assessmentId r,
               sp_overallScore = overallScore (scores r),
               sp_dimensions = dims,
               profileStrength = getProfileStrength (ss_dimensions (scores r)),
               sp_generatedAt = now,
               sp_disclaimer = ''For informational purposes only. Not for clinical diagnosis.''\<rparr>))"

record profile_ref =
  pr_profileId :: string
  pr_userId :: string

record compare_summary =
  similarAreas :: "string list"
  differentAreas :: "string list"
  strongestSimilarity :: "strongest option"
  largestDifference :: "strongest option"

record compare_payload =
  comparisonId :: string
  profile1 :: profile_ref
  profile2 :: profile_ref
  overallSimilarity :: real
  compatibilityLevel :: string
  cp_dimensions :: "dimension_comparison list"
  summary :: compare_summary
  cp_generatedAt :: nat
  cp_disclaimer :: string

text \<open>The result of \<open>generateComparePayload\<close>: the error object \<open>{error}\<close> or a comparison.\<close>

datatype compare_result = CompareError string | Comparison compare_payload

definition generateComparePayload :: "response \<Rightarrow> response \<Rightarrow> nat \<Rightarrow> compare_result" where
  "generateComparePayload response1 response2 now =
     (if \<not> isUsable (reliability response1) \<or> \<not> isUsable (reliability response2)
      then CompareError ''One or both profiles have insufficient quality''
      else
        (let dimensionComparisons =
               compareDimensions (ss_dimensions (scores response1)) (ss_dimensions (scores response2));
             overall = calculateOverallSimilarity dimensionComparisons;
             similarities = filter (\<lambda>d. similarity d \<ge> 75) dimensionComparisons;
             differences = filter (\<lambda>d. similarity d < 75) dimensionComparisons
         in Comparison
              \<lparr>comparisonId = generateComparisonId (responseId response1) (responseId response2),
               profile1 = \<lparr>pr_profileId = generateProfileId (responseId response1),
                            pr_userId = userId response1\<rparr>,
               profile2 = \<lparr>pr_profileId = generateProfileId (responseId response2),
                            pr_userId = userId response2\<rparr>,
               overallSimilarity = round_real overall,
               compatibilityLevel = getCompatibilityLevel overall,
               cp_dimensions = dimensionComparisons,
               summary = \<lparr>similarAreas = map dimensionName similarities,
                           differentAreas = map dimensionName differences,
                           strongestSimilarity = findStrongest dimensionComparisons ''similarity'',
                           largestDifference = findStrongest dimensionComparisons ''difference''\<rparr>,
               cp_generatedAt = now,
               cp_disclaimer = ''For informational purposes only.''\<rparr>))"

section \<open>Sample data\<close>

text \<open>
  The submission of the README (\<open>user-123\<close>, 180 seconds), a second complete
  submission, a submission with no answers, and an assessment with no items.
\<close>

definition sample_metadata :: metadata where
  "sample_metadata = \<lparr>startedAt = Some 0, timeSpent = Some 180\<rparr>"

definition sample_response :: response where
  "sample_response =
     \<lparr>responseId = ''550e8400-e29b-41d4-a716-446655440000'',
      userId = ''user-123'',
      resp_assessmentId = ''personality-v1'',
      answers = sample_answers,
      scores = scoreAssessment personality_v1 sample_answers 0,
      reliability = checkReliability personality_v1 sample_answers sample_metadata 0,
      resp_metadata = sample_metadata\<rparr>"

definition second_answers :: "answer list" where
  "second_answers =
     [mk_answer ''q1'' 3, mk_answer ''q2'' 3, mk_answer ''q3'' 4,
      mk_answer ''q4'' 4, mk_answer ''q5'' 2, mk_answer ''q6'' 4,
      mk_answer ''q7'' 2, mk_answer ''q8'' 3, mk_answer ''q9'' 3]"

definition second_response :: response where
  "second_response =
     \<lparr>responseId = ''660e8400-e29b-41d4-a716-446655440001'',
      userId = ''user-456'',
      resp_assessmentId = ''personality-v1'',
      answers = second_answers,
      scores = scoreAssessment personality_v1 second_answers 0,
      reliability = checkReliability personality_v1 second_answers sample_metadata 0,
      resp_metadata = sample_metadata\<rparr>"

definition no_metadata :: metadata where
  "no_metadata = \<lparr>startedAt = None, timeSpent = None\<rparr>"

definition blank_response :: response where
  "blank_response =
     \<lparr>responseId = ''770e8400-e29b-41d4-a716-446655440002'',
      userId = ''user-789'',
      resp_assessmentId = ''personality-v1'',
      answers = [],
      scores = scoreAssessment personality_v1 [] 0,
      reliability = checkReliability personality_v1 [] no_metadata 0,
      resp_metadata = no_metadata\<rparr>"

definition empty_assessment :: assessment where
  "empty_assessment = \<lparr>assessmentId = ''empty-v1'', title = ''No items'', dimensions = [], items = []\<rparr>"

text \<open>An answer list that is not empty but has no answered entry: one null value.\<close>

definition null_answers :: "answer list" where
  "null_answers = [\<lparr>ans_itemId = ''q1'', ans_value = None, answeredAt = 0\<rparr>]"

section \<open>Facts about the sample data\<close>

lemma rating_four_of_five:
  "passed a \<Longrightarrow> passed c \<Longrightarrow> passed d \<Longrightarrow> passed e \<Longrightarrow>
   calculateOverallRating [a, b, c, d, e] \<noteq> ''poor''"
  by (simp add: calculateOverallRating_def js_ge_def Let_def)

lemma time_180_passes: "passed (checkResponseTime 180 (length (items personality_v1)))"
  by (simp add: checkResponseTime_def createCheck_def js_ge_def personality_v1_def Let_def)

lemma sample_usable: "isUsable (reliability sample_response)"
proof -
  have s: "passed (checkStraightlining sample_answers)"
    by (simp add: checkStraightlining_def createCheck_def count_values_def js_max_list_def
        sample_answers_def mk_answer_def Let_def)
  have e: "passed (checkExtremeResponding sample_answers (items personality_v1))"
    by (simp add: checkExtremeResponding_def createCheck_def item_map_def extreme_step_def
        sample_answers_def mk_answer_def personality_v1_def sample_item_def Let_def)
  have c: "passed (checkCompletionRate sample_answers (items personality_v1))"
    by (simp add: checkCompletionRate_def createCheck_def js_ge_def sample_answers_def
        mk_answer_def personality_v1_def sample_item_def Let_def)
  show ?thesis
    using rating_four_of_five [OF s e c time_180_passes]
    by (simp add: sample_response_def sample_metadata_def checkReliability_def Let_def)
qed

lemma second_usable: "isUsable (reliability second_response)"
proof -
  have s: "passed (checkStraightlining second_answers)"
    by (simp add: checkStraightlining_def createCheck_def count_values_def js_max_list_def
        second_answers_def mk_answer_def Let_def)
  have e: "passed (checkExtremeResponding second_answers (items personality_v1))"
    by (simp add: checkExtremeResponding_def createCheck_def item_map_def extreme_step_def
        second_answers_def mk_answer_def personality_v1_def sample_item_def Let_def)
  have c: "passed (checkCompletionRate second_answers (items personality_v1))"
    by (simp add: checkCompletionRate_def createCheck_def js_ge_def second_answers_def
        mk_answer_def personality_v1_def sample_item_def Let_def)
  show ?thesis
    using rating_four_of_five [OF s e c time_180_passes]
    by (simp add: second_response_def sample_metadata_def checkReliability_def Let_def)
qed

lemma blank_reliability:
  "reliability blank_response =
     \<lparr>isUsable = False, overallRating = ''poor'',
      checks =
        [\<lparr>checkName = ''straightlining'', passed = False, score = Fin 0,
           message = ''No answers provided''\<rparr>,
         \<lparr>checkName = ''variability'', passed = False, score = Fin 0,
           message = ''Not enough answers''\<rparr>,
         \<lparr>checkName = ''extreme_responding'', passed = False, score = Fin 0,
           message = ''No answers''\<rparr>,
         \<lparr>checkName = ''completion_rate'', passed = False, score = Fin 0,
           message = ''Only 0% completed - too many skipped''\<rparr>],
      flags = [''straightlining'', ''variability'', ''extreme_responding'', ''completion_rate''],
      checkedAt = 0\<rparr>"
  by (simp add: blank_response_def no_metadata_def checkReliability_def checkStraightlining_def
      checkVariability_def checkExtremeResponding_def checkCompletionRate_def createCheck_def
      calculateOverallRating_def generateFlags_def answered_values_def List.map_filter_def
      js_ge_def round_real_def string_of_int_def digit_char_def personality_v1_def Let_def)

section \<open>The share and compare payloads\<close>

text \<open>
  C1. For a usable response, \<open>generateSharePayload\<close> is to identify the subject only
  through the anonymized profile identifier. The header of the share service lists the
  user's real identifier among what is hidden, yet the returned profile copies
  \<open>assessmentResponse.userId\<close> into its \<open>userId\<close> field: for the README's submission the
  payload carries \<open>user-123\<close> beside \<open>profile_NTUwZTg0MDAt\<close>.
\<close>

theorem share_payload_exposes_user_id:
  "(case generateSharePayload sample_response True 0 of
      ShareError e r \<Rightarrow> None
    | ShareProfile p \<Rightarrow> Some (sp_profileId p, sp_userId p))
   = Some (''profile_NTUwZTg0MDAt'', ''user-123'')"
  using sample_usable
  by (simp add: generateSharePayload_def Let_def generateProfileId_def base64_def b64_char_def
      sample_response_def)

text \<open>
  C2. A response that is not usable gets the error object \<open>{error, rating}\<close> from
  \<open>generateSharePayload\<close>, never a profile; a pair of responses of which at least one is
  not usable gets the error object from \<open>generateComparePayload\<close>.
\<close>

theorem unusable_returns_error:
  "(\<not> isUsable (reliability r) \<longrightarrow>
      generateSharePayload r includePercentiles now =
        ShareError ''Response quality too low to share'' (overallRating (reliability r)))
   \<and> (\<not> isUsable (reliability r1) \<or> \<not> isUsable (reliability r2) \<longrightarrow>
      generateComparePayload r1 r2 now =
        CompareError ''One or both profiles have insufficient quality'')"
  by (simp add: generateSharePayload_def generateComparePayload_def)

theorem unusable_returns_error_witness:
  "\<not> isUsable (reliability blank_response)
   \<and> generateSharePayload blank_response True 0 =
       ShareError ''Response quality too low to share'' ''poor''
   \<and> generateComparePayload sample_response blank_response 0 =
       CompareError ''One or both profiles have insufficient quality''"
  using unusable_returns_error [of blank_response True 0 sample_response blank_response]
  by (simp add: blank_reliability)

text \<open>
  C10. For two usable responses the compare payload carries the unmodified \<open>userId\<close> of
  each response in \<open>profile1.userId\<close> and \<open>profile2.userId\<close>, beside the anonymized profile
  identifiers.
\<close>

theorem compare_payload_carries_user_ids:
  "isUsable (reliability r1) \<Longrightarrow> isUsable (reliability r2) \<Longrightarrow>
   \<exists>p. generateComparePayload r1 r2 now = Comparison p
     \<and> pr_userId (profile1 p) = userId r1
     \<and> pr_userId (profile2 p) = userId r2
     \<and> pr_profileId (profile1 p) = generateProfileId (responseId r1)
     \<and> pr_profileId (profile2 p) = generateProfileId (responseId r2)"
  by (simp add: generateComparePayload_def Let_def)

theorem compare_payload_carries_user_ids_witness:
  "isUsable (reliability sample_response) \<and> isUsable (reliability second_response)
   \<and> (\<exists>p. generateComparePayload sample_response second_response 0 = Comparison p
        \<and> pr_userId (profile1 p) = ''user-123''
        \<and> pr_userId (profile2 p) = ''user-456'')"
  using compare_payload_carries_user_ids [OF sample_usable second_usable, of 0]
    sample_usable second_usable
  by (auto simp add: sample_response_def second_response_def)

text \<open>
  C9. The comparison identifier does not depend on the order of the two response
  identifiers: the pair is sorted before it is joined and encoded.
\<close>

theorem comparison_id_symmetric:
  "generateComparisonId a b = generateComparisonId b a"
proof -
  have "sort [a, b] = sort [b, a]"
    by (cases "a \<le> b"; cases "b \<le> a") auto
  then show ?thesis
    by (simp only: generateComparisonId_def)
qed

section \<open>The reliability checks on degenerate input\<close>

lemma unanswered_fold_extreme:
  "answered_values as = [] \<Longrightarrow> fold (extreme_step m) as acc = acc"
proof (induction as arbitrary: acc)
  case Nil
  then show ?case by simp
next
  case (Cons a as)
  from Cons.prems have v: "ans_value a = None" and r: "answered_values as = []"
    by (auto simp add: answered_values_def List.map_filter_def split: if_splits)
  from v have "extreme_step m a acc = acc"
    by (cases acc) (simp add: extreme_step_def)
  with Cons.IH [OF r] show ?case by simp
qed

text \<open>
  C3, as stated: with a non-empty answer list whose values are all null, neither check
  fails. \<open>checkStraightlining\<close> takes \<open>Math.max\<close> of no counts, \<open>-Infinity\<close>, which is
  below the threshold; \<open>checkExtremeResponding\<close> takes its zero-total branch. Both return
  a passed check with score 100.
\<close>

theorem null_answers_pass_counterexample:
  "answered_values null_answers = []
   \<and> checkStraightlining null_answers =
       \<lparr>checkName = ''straightlining'', passed = True, score = Fin 100,
        message = ''Good response variation''\<rparr>
   \<and> checkExtremeResponding null_answers (items personality_v1) =
       \<lparr>checkName = ''extreme_responding'', passed = True, score = Fin 100,
        message = ''Appropriate use of scale''\<rparr>"
  by (simp add: null_answers_def answered_values_def List.map_filter_def checkStraightlining_def
      checkExtremeResponding_def createCheck_def count_values_def js_max_list_def item_map_def
      extreme_step_def round_real_def personality_v1_def sample_item_def Let_def)

text \<open>
  C3, amended. On the empty answer list both checks return a failed check with score 0
  and a message, before any division. On a non-empty answer list with no answered entry
  \<open>checkExtremeResponding\<close> guards its division (\<open>totalCount > 0\<close>), takes the extreme
  share to be 0 and returns a passed check with score 100.
\<close>

theorem no_answered_entries:
  "checkStraightlining [] =
     \<lparr>checkName = ''straightlining'', passed = False, score = Fin 0,
      message = ''No answers provided''\<rparr>
   \<and> checkExtremeResponding [] its =
     \<lparr>checkName = ''extreme_responding'', passed = False, score = Fin 0,
      message = ''No answers''\<rparr>
   \<and> (as \<noteq> [] \<and> answered_values as = [] \<longrightarrow>
        checkExtremeResponding as its =
          \<lparr>checkName = ''extreme_responding'', passed = True, score = Fin 100,
           message = ''Appropriate use of scale''\<rparr>)"
  by (simp add: checkStraightlining_def checkExtremeResponding_def createCheck_def
      unanswered_fold_extreme round_real_def Let_def)

theorem no_answered_entries_witness:
  "null_answers \<noteq> [] \<and> answered_values null_answers = []
   \<and> checkExtremeResponding null_answers (items personality_v1) =
       \<lparr>checkName = ''extreme_responding'', passed = True, score = Fin 100,
        message = ''Appropriate use of scale''\<rparr>"
  using no_answered_entries [where as = null_answers and its = "items personality_v1"]
  by (simp add: null_answers_def answered_values_def List.map_filter_def)

text \<open>
  C4. Every check record is to carry a score between 0 and 100. \<open>checkCompletionRate\<close>
  divides by the number of items with no guard and does not clamp its percentage: with
  no items and no answers the score is \<open>0 / 0 = NaN\<close>, and two answers to the one item
  of an assessment give the score 200.
\<close>

theorem completion_score_out_of_range:
  "score (checkCompletionRate [] []) = NaN
   \<and> score (checkCompletionRate [mk_answer ''q1'' 3, mk_answer ''q1'' 3]
        [sample_item ''q1'' ''I am the life of the party'' ''extraversion'' False]) = Fin 200"
  by (simp add: checkCompletionRate_def createCheck_def mk_answer_def round_real_def Let_def)

text \<open>
  C5. For an assessment with no items every check is to fail gracefully with score 0
  and a message, with no division by zero. With no items and no answers the first three
  checks do so; \<open>checkCompletionRate\<close> divides 0 by 0 and reports \<open>NaN\<close> as its score
  and in its message.
\<close>

theorem zero_items_reliability:
  "checks (checkReliability empty_assessment [] no_metadata 0) =
     [\<lparr>checkName = ''straightlining'', passed = False, score = Fin 0,
        message = ''No answers provided''\<rparr>,
      \<lparr>checkName = ''variability'', passed = False, score = Fin 0,
        message = ''Not enough answers''\<rparr>,
      \<lparr>checkName = ''extreme_responding'', passed = False, score = Fin 0,
        message = ''No answers''\<rparr>,
      \<lparr>checkName = ''completion_rate'', passed = False, score = NaN,
        message = ''Only NaN% completed - too many skipped''\<rparr>]"
  by (simp add: empty_assessment_def no_metadata_def checkReliability_def checkStraightlining_def
      checkVariability_def checkExtremeResponding_def checkCompletionRate_def createCheck_def
      answered_values_def List.map_filter_def js_ge_def round_real_def Let_def)

section \<open>Scoring\<close>

text \<open>
  C6. For \<open>personality-v1\<close> and the answers \<open>[5,2,4,5,1,4,5,2,4]\<close>, every dimension's
  raw score is the sum of its three answer values, the reversed ones flipped; the
  extraversion dimension has raw score \<open>13 = 5 + reverse(2,1,5) + 4\<close> and normalized
  score \<open>83.33\<close>, which is \<open>((13 - 3) / (15 - 3)) * 100\<close> rounded to two decimals.
\<close>

theorem personality_v1_scores:
  "map (\<lambda>d. (ds_name d, rawScore d, normalizedScore d))
     (ss_dimensions (scoreAssessment personality_v1 sample_answers now))
   = [(''Extraversion'', 5 + reverseScore 2 1 5 + 4, 83.33),
      (''Agreeableness'', 5 + reverseScore 1 1 5 + 4, 91.67),
      (''Conscientiousness'', 5 + reverseScore 2 1 5 + 4, 83.33)]
   \<and> 5 + reverseScore 2 1 5 + 4 = 13
   \<and> round_real (normalizeScore 13 3 15 * 100) / 100 = 83.33"
  by (simp add: scoreAssessment_def groupByDimension_def group_step_def personality_v1_def
      sample_answers_def mk_answer_def sample_item_def calculateDimensionScore_def zero_score_def
      normalizeScore_def reverseScore_def round_real_def Let_def)

text \<open>
  C7, as stated: the percentile of the midpoint is not exactly the midpoint. At \<open>z = 0\<close>
  the approximation returns the product of its truncated constants, which is not \<open>1/2\<close>.
\<close>

theorem midpoint_percentile_counterexample:
  "calculatePercentile 50 \<noteq> 50 \<and> normalCDF 0 \<noteq> 1 / 2"
  by (simp add: calculatePercentile_def normalCDF_def normalCDF_prob_def)

text \<open>
  C7, amended. \<open>normalCDF(0)\<close> is \<open>0.49999985009951\<close> and \<open>calculatePercentile(50)\<close> is
  \<open>49.999985009951\<close>: within \<open>0.00002\<close> of the midpoint, and 50 once rounded to the
  nearest integer as \<open>calculateDimensionScore\<close> stores it.
\<close>

theorem midpoint_percentile:
  "normalCDF 0 = 0.49999985009951
   \<and> calculatePercentile 50 = 49.999985009951
   \<and> \<bar>calculatePercentile 50 - 50\<bar> < 0.00002
   \<and> round_real (calculatePercentile 50) = 50"
  by (simp add: calculatePercentile_def normalCDF_def normalCDF_prob_def round_real_def)

text \<open>
  C8, as stated: the symmetry fails at \<open>z = 0\<close>, where \<open>normalCDF\<close> returns the same
  value, below \<open>1/2\<close>, for \<open>z\<close> and \<open>-z\<close>; so the percentiles of \<open>50\<close> and \<open>100 - 50\<close> do
  not add up to 100.
\<close>

theorem cdf_symmetry_counterexample:
  "normalCDF (- 0) \<noteq> 1 - normalCDF 0
   \<and> calculatePercentile 50 + calculatePercentile (100 - 50) \<noteq> 100"
  by (simp add: calculatePercentile_def normalCDF_def normalCDF_prob_def)

text \<open>
  Without rounding and with the exact exponential, the rounded function is \<open>normalCDF\<close>.
\<close>

lemma normalCDF_rounded_exact: "normalCDF_rounded (\<lambda>x. x) exp z = normalCDF z"
  by (simp add: normalCDF_rounded_def normalCDF_prob_rounded_def normalCDF_def
      normalCDF_prob_def Let_def)

text \<open>
  C8, amended. The approximation is symmetric on the negative side: for every \<open>z < 0\<close>,
  \<open>normalCDF(-z) = 1 - normalCDF(z)\<close>, whatever the rounding of the arithmetic, since
  both sides are the one subtraction \<open>1 - prob\<close> of the same \<open>prob\<close>. (For \<open>z > 0\<close>
  the right-hand side is \<open>1 - (1 - prob)\<close>, which is rounded twice; nothing is stated
  there, nor of the sum of the percentiles of \<open>x\<close> and \<open>100 - x\<close>.)
\<close>

theorem cdf_symmetry_negative:
  "z < 0 \<Longrightarrow>
     normalCDF_rounded rnd ex (- z) = rnd (1 - normalCDF_rounded rnd ex z)
     \<and> normalCDF (- z) = 1 - normalCDF z"
proof -
  assume neg: "z < 0"
  have same: "normalCDF_prob_rounded rnd ex (- z) = normalCDF_prob_rounded rnd ex z"
    by (simp add: normalCDF_prob_rounded_def)
  from neg have "normalCDF_rounded rnd ex (- z) = rnd (1 - normalCDF_prob_rounded rnd ex (- z))"
    by (simp add: normalCDF_rounded_def Let_def)
  moreover from neg have "normalCDF_rounded rnd ex z = normalCDF_prob_rounded rnd ex z"
    by (simp add: normalCDF_rounded_def Let_def)
  ultimately have r: "normalCDF_rounded rnd ex (- z) = rnd (1 - normalCDF_rounded rnd ex z)"
    using same by simp
  from neg have "normalCDF (- z) = 1 - normalCDF z"
    by (simp add: normalCDF_def normalCDF_prob_def)
  with r show ?thesis by simp
qed

theorem cdf_symmetry_negative_witness:
  "(- 1 :: real) < 0
   \<and> normalCDF_rounded (\<lambda>x. x) exp (- (- 1)) = 1 - normalCDF_rounded (\<lambda>x. x) exp (- 1)
   \<and> normalCDF (- (- 1)) = 1 - normalCDF (- 1)"
  using cdf_symmetry_negative [of "- 1" "\<lambda>x. x" exp] by simp

end
